theory Spec2Isabelle
  imports Main "HOL-Library.Word" "HOL-Library.List_Lexorder" "HOL-Library.AList"
begin

section \<open>Strings\<close>

text \<open>
  A JavaScript string is a sequence of UTF-16 code units. The regular expressions of the
  source carry no \<open>u\<close> flag and the default \<open>sort\<close> compares code units, so every
  string operation of the program works on this sequence. \<open>asc\<close> writes an ASCII
  literal; the Japanese labels are given by their code units.
\<close>

type_synonym jsstring = "16 word list"

definition asc :: "string \<Rightarrow> jsstring" where
  "asc s = map of_char s"

section \<open>Constants of the form\<close>

datatype SectionKey = influent | aerobic_upper | aerobic_lower | effluent

record section_def =
  key :: SectionKey
  label :: jsstring

text \<open>Stage labels: U+6D41 U+5165 U+6C34 (influent), U+597D U+6C17 U+6027 U+308D U+5E8A
  followed by a space and U+4E0A U+90E8 (aerobic filter bed, upper), the same prefix with
  U+4E0B U+90E8 U+30FB U+51E6 U+7406 U+6C34 (lower, treated water), U+653E U+6D41 U+6C34
  (effluent).\<close>

definition SECTION_DEFS :: "section_def list" where
  "SECTION_DEFS =
    [\<lparr>key = influent, label = [0x6D41, 0x5165, 0x6C34]\<rparr>,
     \<lparr>key = aerobic_upper,
      label = [0x597D, 0x6C17, 0x6027, 0x308D, 0x5E8A, 0x20, 0x4E0A, 0x90E8]\<rparr>,
     \<lparr>key = aerobic_lower,
      label = [0x597D, 0x6C17, 0x6027, 0x308D, 0x5E8A, 0x20, 0x4E0B, 0x90E8, 0x30FB,
               0x51E6, 0x7406, 0x6C34]\<rparr>,
     \<lparr>key = effluent, label = [0x653E, 0x6D41, 0x6C34]\<rparr>]"

definition POINT_SECTIONS :: "SectionKey list" where
  "POINT_SECTIONS = [aerobic_upper, aerobic_lower]"

datatype FieldKey =
  odor | color | temp | turbidity | pH | DO | residualChlorine | headLoss | aeration
  | comment

text \<open>Field labels as in \<open>FIELD_LABEL\<close>: U+81ED U+6C17 (odor), U+8272 U+76F8 (color),
  U+6C34 U+6E29 ( U+2103 ) (water temperature), U+900F U+8996 U+5EA6 (transparency),
  pH, DO(mg/L), U+6B8B U+5869 (mg/L) (residual chlorine), U+308D U+6297 U+9AD8 (head
  loss), U+9001 U+6C17 U+91CF (aeration), U+5099 U+8003 (remarks).\<close>

fun FIELD_LABEL :: "FieldKey \<Rightarrow> jsstring" where
  "FIELD_LABEL odor = [0x81ED, 0x6C17]"
| "FIELD_LABEL color = [0x8272, 0x76F8]"
| "FIELD_LABEL temp = [0x6C34, 0x6E29, 0x28, 0x2103, 0x29]"
| "FIELD_LABEL turbidity = [0x900F, 0x8996, 0x5EA6]"
| "FIELD_LABEL pH = asc ''pH''"
| "FIELD_LABEL DO = asc ''DO(mg/L)''"
| "FIELD_LABEL residualChlorine = [0x6B8B, 0x5869] @ asc ''(mg/L)''"
| "FIELD_LABEL headLoss = [0x308D, 0x6297, 0x9AD8]"
| "FIELD_LABEL aeration = [0x9001, 0x6C17, 0x91CF]"
| "FIELD_LABEL comment = [0x5099, 0x8003]"

definition FIELD_ORDER :: "FieldKey list" where
  "FIELD_ORDER =
    [odor, color, temp, turbidity, pH, DO, residualChlorine, headLoss, aeration, comment]"

definition POINT_FIELD_ORDER :: "FieldKey list" where
  "POINT_FIELD_ORDER =
    [odor, color, temp, turbidity, pH, DO, residualChlorine, headLoss, aeration]"

section \<open>Form state\<close>

record HeaderForm =
  date :: jsstring
  weekday :: jsstring
  weather :: jsstring
  airTemp :: jsstring
  primarySettlingNo1 :: jsstring
  primarySettlingNo2 :: jsstring
  pacRemaining :: jsstring
  elutionPH :: jsstring
  elutionTemp :: jsstring
  waterContent :: jsstring

text \<open>Every field of a \<open>SectionForm\<close> is optional: a field that is absent or
  \<open>undefined\<close> is \<open>None\<close>.\<close>

type_synonym SectionForm = "FieldKey \<rightharpoonup> jsstring"

type_synonym FieldVisibility = "FieldKey \<rightharpoonup> bool"

text \<open>\<open>VisibilityMap\<close> is declared with all four stage keys, but every reader of the
  source guards against a missing stage (\<open>vis?.influent ?? {}\<close>), so a stage may be
  absent here.\<close>

type_synonym VisibilityMap = "SectionKey \<rightharpoonup> FieldVisibility"

text \<open>
  A plain object with arbitrary string keys is the association list of its own
  properties, in insertion order. Reading \<open>o[k]\<close> finds the own property, or else a
  member of \<open>Object.prototype\<close> (always a truthy function or object), or else
  \<open>undefined\<close>. Assigning \<open>o[k] = v\<close> overwrites the own property or creates it,
  except for the key \<open>__proto__\<close> where the object has no own property of that name:
  there the inherited setter changes the prototype and leaves the own properties as
  they are.
\<close>

type_synonym 'v jsobject = "(jsstring \<times> 'v) list"

datatype 'v property = OwnValue 'v | Inherited | Undefined

definition proto_key :: jsstring where
  "proto_key = asc ''__proto__''"

definition Object_prototype_names :: "jsstring list" where
  "Object_prototype_names =
    [asc ''constructor'', asc ''hasOwnProperty'', asc ''isPrototypeOf'',
     asc ''propertyIsEnumerable'', asc ''toLocaleString'', asc ''toString'',
     asc ''valueOf'', asc ''__proto__'', asc ''__defineGetter__'',
     asc ''__defineSetter__'', asc ''__lookupGetter__'', asc ''__lookupSetter__'']"

definition js_get :: "'v jsobject \<Rightarrow> jsstring \<Rightarrow> 'v property" where
  "js_get obj k =
    (case map_of obj k of
       Some v \<Rightarrow> OwnValue v
     | None \<Rightarrow> if k \<in> set Object_prototype_names then Inherited else Undefined)"

definition js_set :: "'v jsobject \<Rightarrow> jsstring \<Rightarrow> 'v \<Rightarrow> 'v jsobject" where
  "js_set obj k v =
    (if k = proto_key \<and> map_of obj k = None then obj else AList.update k v obj)"

type_synonym PointDataMap = "SectionForm jsobject"

text \<open>\<open>pointData\<close>, \<open>visibility\<close> and \<open>extraNote\<close> are declared as required, but
  \<open>toSheetRows\<close> reads them through \<open>?.\<close> and \<open>||\<close>, so that a snapshot of an older
  schema without them is accepted; \<open>None\<close> is the missing property. \<open>sections\<close> is
  read unguarded and holds all four stages.\<close>

record FormState =
  header :: HeaderForm
  sections :: "SectionKey \<Rightarrow> SectionForm"
  points :: "jsstring list"
  pointData :: "(SectionKey \<rightharpoonup> PointDataMap) option"
  visibility :: "VisibilityMap option"
  extraNote :: "jsstring option"

section \<open>Visibility\<close>

definition DEFAULT_VISIBILITY :: "SectionKey \<Rightarrow> FieldVisibility" where
  "DEFAULT_VISIBILITY sk =
    (case sk of
       influent \<Rightarrow>
         [odor \<mapsto> True, color \<mapsto> True, temp \<mapsto> True, turbidity \<mapsto> True, pH \<mapsto> True,
          DO \<mapsto> True, residualChlorine \<mapsto> False, headLoss \<mapsto> False, aeration \<mapsto> False,
          comment \<mapsto> False]
     | aerobic_upper \<Rightarrow>
         [odor \<mapsto> True, color \<mapsto> True, temp \<mapsto> True, turbidity \<mapsto> True, pH \<mapsto> True,
          DO \<mapsto> True, residualChlorine \<mapsto> False, headLoss \<mapsto> True, aeration \<mapsto> False,
          comment \<mapsto> False]
     | aerobic_lower \<Rightarrow>
         [odor \<mapsto> True, color \<mapsto> True, temp \<mapsto> True, turbidity \<mapsto> True, pH \<mapsto> True,
          DO \<mapsto> True, residualChlorine \<mapsto> False, headLoss \<mapsto> False, aeration \<mapsto> True,
          comment \<mapsto> False]
     | effluent \<Rightarrow>
         [odor \<mapsto> True, color \<mapsto> True, temp \<mapsto> True, turbidity \<mapsto> True, pH \<mapsto> True,
          DO \<mapsto> True, residualChlorine \<mapsto> True, headLoss \<mapsto> False, aeration \<mapsto> False,
          comment \<mapsto> False])"

text \<open>\<open>vis?.[sk] ?? {}\<close>: the stage's entry of a map that may itself be missing.\<close>

definition stage_entry :: "VisibilityMap option \<Rightarrow> SectionKey \<Rightarrow> FieldVisibility" where
  "stage_entry vis sk =
    (case vis of
       None \<Rightarrow> Map.empty
     | Some v \<Rightarrow> (case v sk of None \<Rightarrow> Map.empty | Some m \<Rightarrow> m))"

text \<open>The object spread \<open>{...a, ...b}\<close> is \<open>a ++ b\<close> (a property that is present
  with the value \<open>undefined\<close> cannot come out of \<open>JSON.parse\<close> and is not
  distinguished from an absent one). The \<open>forEach\<close> assigns into
  \<open>merged[k]\<close>, which the literal above it has just created for all four stages; the
  \<open>None\<close> branch stands for the TypeError the assignment would raise otherwise.\<close>

definition force_odor_color :: "VisibilityMap \<Rightarrow> SectionKey \<Rightarrow> VisibilityMap" where
  "force_odor_color merged k =
    (case merged k of
       None \<Rightarrow> merged
     | Some e \<Rightarrow> merged(k \<mapsto> e(odor \<mapsto> True, color \<mapsto> True)))"

definition patchedVisibility :: "VisibilityMap option \<Rightarrow> VisibilityMap" where
  "patchedVisibility vis =
    (let merged =
       [influent \<mapsto> DEFAULT_VISIBILITY influent ++ stage_entry vis influent,
        aerobic_upper \<mapsto> DEFAULT_VISIBILITY aerobic_upper ++ stage_entry vis aerobic_upper,
        aerobic_lower \<mapsto> DEFAULT_VISIBILITY aerobic_lower ++ stage_entry vis aerobic_lower,
        effluent \<mapsto> DEFAULT_VISIBILITY effluent ++ stage_entry vis effluent]
     in foldl force_odor_color merged [aerobic_upper, aerobic_lower])"

text \<open>\<open>vis?.[key] === false ? false : true\<close>.\<close>

definition isFieldVisible :: "FieldVisibility option \<Rightarrow> FieldKey \<Rightarrow> bool" where
  "isFieldVisible vis k =
    (case vis of
       None \<Rightarrow> True
     | Some m \<Rightarrow> if m k = Some False then False else True)"

section \<open>Point labels\<close>

text \<open>\<open>label.replace(/^NO\./, "No.")\<close>: the pattern has no \<open>g\<close> flag and is anchored,
  so it can match only the three code units at the start, once.\<close>

definition displayPointLabel :: "jsstring \<Rightarrow> jsstring" where
  "displayPointLabel lab =
    (if take 3 lab = asc ''NO.'' then asc ''No.'' @ drop 3 lab else lab)"

section \<open>Sheet rows\<close>

definition push :: "'a list \<Rightarrow> 'a \<Rightarrow> 'a list" where
  "push rows r = rows @ [r]"

text \<open>\<open>x || ""\<close> on an optional string, and \<open>String(x ?? "")\<close>.\<close>

definition or_empty :: "jsstring option \<Rightarrow> jsstring" where
  "or_empty x = (case x of None \<Rightarrow> [] | Some v \<Rightarrow> if v = [] then [] else v)"

definition nullish_empty :: "jsstring option \<Rightarrow> jsstring" where
  "nullish_empty x = (case x of None \<Rightarrow> [] | Some v \<Rightarrow> v)"

text \<open>The template literal that puts a label between U+3010 and U+3011.\<close>

definition bracketed :: "jsstring \<Rightarrow> jsstring" where
  "bracketed lab = [0x3010] @ lab @ [0x3011]"

text \<open>Header labels: U+65E5 U+4ED8 (date), U+66DC U+65E5 (weekday), U+5929 U+5019
  (weather), U+5916 U+6C17 U+6E29 ( U+2103 ) (air temperature), U+521D U+6C88 U+754C
  U+9762 NO.1(m) and NO.2(m) (primary settling interface), PAC U+6B8B U+91CF ( U+33A5 )
  (PAC remaining), U+8131 U+96E2 U+6DB2 pH and U+8131 U+96E2 U+6DB2 U+6C34 U+6E29
  ( U+2103 ) (supernatant pH and temperature), U+542B U+6C34 U+7387 (%) (water
  content); U+30DD U+30A4 U+30F3 U+30C8 (point); U+81EA U+7531 U+8A18 U+5165 and
  U+5099 U+8003 (free note, remarks).\<close>

definition L_date :: jsstring where
  "L_date = [0x65E5, 0x4ED8]"

definition L_weekday :: jsstring where
  "L_weekday = [0x66DC, 0x65E5]"

definition L_weather :: jsstring where
  "L_weather = [0x5929, 0x5019]"

definition L_airTemp :: jsstring where
  "L_airTemp = [0x5916, 0x6C17, 0x6E29, 0x28, 0x2103, 0x29]"

definition L_primarySettlingNo1 :: jsstring where
  "L_primarySettlingNo1 = [0x521D, 0x6C88, 0x754C, 0x9762] @ asc '' NO.1(m)''"

definition L_primarySettlingNo2 :: jsstring where
  "L_primarySettlingNo2 = [0x521D, 0x6C88, 0x754C, 0x9762] @ asc '' NO.2(m)''"

definition L_pacRemaining :: jsstring where
  "L_pacRemaining = asc ''PAC'' @ [0x6B8B, 0x91CF, 0x28, 0x33A5, 0x29]"

definition L_elutionPH :: jsstring where
  "L_elutionPH = [0x8131, 0x96E2, 0x6DB2] @ asc '' pH''"

definition L_elutionTemp :: jsstring where
  "L_elutionTemp = [0x8131, 0x96E2, 0x6DB2, 0x20, 0x6C34, 0x6E29, 0x28, 0x2103, 0x29]"

definition L_waterContent :: jsstring where
  "L_waterContent = [0x542B, 0x6C34, 0x7387] @ asc ''(%)''"

definition L_point :: jsstring where
  "L_point = [0x30DD, 0x30A4, 0x30F3, 0x30C8]"

definition L_freeNote :: jsstring where
  "L_freeNote = [0x81EA, 0x7531, 0x8A18, 0x5165, 0x20, 0x5099, 0x8003]"

definition L_note :: jsstring where
  "L_note = [0x5099, 0x8003]"

text \<open>The inner loop over \<open>FIELD_ORDER\<close>: \<open>continue\<close> on a hidden field, else push
  the label and the value.\<close>

definition field_step ::
  "SectionForm \<Rightarrow> FieldVisibility \<Rightarrow> jsstring list list \<Rightarrow> FieldKey \<Rightarrow> jsstring list list"
where
  "field_step s vis rows k =
    (if \<not> isFieldVisible (Some vis) k then rows
     else (let lab = FIELD_LABEL k; val = or_empty (s k) in push rows [lab, val]))"

text \<open>The loop over \<open>f.points\<close>: \<open>pd[label] || {}\<close> is the point's own record; a
  member of \<open>Object.prototype\<close> found under that name has none of the field keys, so
  it reads as the empty record.\<close>

definition point_record :: "PointDataMap \<Rightarrow> jsstring \<Rightarrow> SectionForm" where
  "point_record pd lab =
    (case js_get pd lab of OwnValue r \<Rightarrow> r | Inherited \<Rightarrow> Map.empty | Undefined \<Rightarrow> Map.empty)"

definition point_step ::
  "PointDataMap \<Rightarrow> FieldKey list \<Rightarrow> jsstring list list \<Rightarrow> jsstring \<Rightarrow> jsstring list list"
where
  "point_step pd visCols rows lab =
    (let r = point_record pd lab
     in push rows (displayPointLabel lab # map (\<lambda>k. nullish_empty (r k)) visCols))"

text \<open>\<open>f.pointData?.[def.key] || {}\<close>.\<close>

definition stage_pointData :: "FormState \<Rightarrow> SectionKey \<Rightarrow> PointDataMap" where
  "stage_pointData f sk =
    (case pointData f of
       None \<Rightarrow> []
     | Some m \<Rightarrow> (case m sk of None \<Rightarrow> [] | Some pd \<Rightarrow> pd))"

text \<open>The body of the loop over \<open>SECTION_DEFS\<close>.\<close>

definition section_step ::
  "FormState \<Rightarrow> jsstring list list \<Rightarrow> section_def \<Rightarrow> jsstring list list"
where
  "section_step f rows0 d =
    (let rows = push rows0 [bracketed (label d)];
         s = sections f (key d);
         vis = stage_entry (visibility f) (key d);
         isAerobic = (key d = aerobic_upper \<or> key d = aerobic_lower);
         rows = (if \<not> isAerobic then foldl (field_step s vis) rows FIELD_ORDER else rows);
         rows =
           (if key d \<in> set POINT_SECTIONS then
              (let visCols = filter (\<lambda>k. isFieldVisible (Some vis) k) POINT_FIELD_ORDER
               in if length visCols \<noteq> 0 then
                    (let rows = push rows (L_point # map FIELD_LABEL visCols);
                         pd = stage_pointData f (key d)
                     in foldl (point_step pd visCols) rows (points f))
                  else rows)
            else rows)
     in push rows [[]])"

definition toSheetRows :: "FormState \<Rightarrow> jsstring list list" where
  "toSheetRows f =
    (let rows = [];
         rows = push rows [L_date, date (header f)];
         rows = push rows [L_weekday, weekday (header f)];
         rows = push rows [L_weather, weather (header f)];
         rows = push rows [L_airTemp, airTemp (header f)];
         rows = push rows [L_primarySettlingNo1, primarySettlingNo1 (header f)];
         rows = push rows [L_primarySettlingNo2, primarySettlingNo2 (header f)];
         rows = push rows [L_pacRemaining, pacRemaining (header f)];
         rows = push rows [L_elutionPH, elutionPH (header f)];
         rows = push rows [L_elutionTemp, elutionTemp (header f)];
         rows = push rows [L_waterContent, waterContent (header f)];
         rows = push rows [[]];
         rows = foldl (section_step f) rows SECTION_DEFS;
         rows = push rows [bracketed L_freeNote];
         rows = push rows [L_note, or_empty (extraNote f)];
         rows = push rows [[]]
     in rows)"

text \<open>The closed form of the rows one stage contributes between its title row and its
  separator: for a stage without points one row per visible field, for a point-bearing
  stage the point table.\<close>

definition field_value :: "SectionForm \<Rightarrow> FieldKey \<Rightarrow> jsstring" where
  "field_value s k = (case s k of None \<Rightarrow> [] | Some v \<Rightarrow> v)"

definition field_rows :: "SectionForm \<Rightarrow> FieldVisibility \<Rightarrow> jsstring list list" where
  "field_rows s vis =
    map (\<lambda>k. [FIELD_LABEL k, field_value s k])
      (filter (\<lambda>k. vis k \<noteq> Some False) FIELD_ORDER)"

definition visible_columns :: "FormState \<Rightarrow> SectionKey \<Rightarrow> FieldKey list" where
  "visible_columns f sk =
    filter (\<lambda>k. stage_entry (visibility f) sk k \<noteq> Some False) POINT_FIELD_ORDER"

definition point_value :: "PointDataMap \<Rightarrow> jsstring \<Rightarrow> FieldKey \<Rightarrow> jsstring" where
  "point_value pd lab k =
    (case js_get pd lab of
       OwnValue r \<Rightarrow> (case r k of None \<Rightarrow> [] | Some v \<Rightarrow> v)
     | Inherited \<Rightarrow> []
     | Undefined \<Rightarrow> [])"

definition point_row :: "FormState \<Rightarrow> SectionKey \<Rightarrow> jsstring \<Rightarrow> jsstring list" where
  "point_row f sk lab =
    displayPointLabel lab #
    map (point_value (stage_pointData f sk) lab) (visible_columns f sk)"

definition point_table :: "FormState \<Rightarrow> SectionKey \<Rightarrow> jsstring list list" where
  "point_table f sk =
    (if visible_columns f sk = [] then []
     else (L_point # map FIELD_LABEL (visible_columns f sk)) #
          map (point_row f sk) (points f))"

definition stage_rows :: "FormState \<Rightarrow> SectionKey \<Rightarrow> jsstring list list" where
  "stage_rows f sk =
    (if sk = aerobic_upper \<or> sk = aerobic_lower then point_table f sk
     else field_rows (sections f sk) (stage_entry (visibility f) sk))"


section \<open>Numeric input\<close>

text \<open>\<open>s.split(".")\<close>: the pieces between the separators, at least one piece.\<close>

fun split_acc :: "'a \<Rightarrow> 'a list \<Rightarrow> 'a list \<Rightarrow> 'a list list" where
  "split_acc c cur [] = [cur]"
| "split_acc c cur (x # xs) =
    (if x = c then cur # split_acc c [] xs else split_acc c (cur @ [x]) xs)"

definition split :: "'a \<Rightarrow> 'a list \<Rightarrow> 'a list list" where
  "split c s = split_acc c [] s"











section \<open>Archive\<close>

type_synonym ArchiveMap = "FormState jsobject"

text \<open>
  The text held under \<open>STORAGE_KEY_ARCHIVE\<close> is represented by what the program can
  tell about it: it is the empty string, or \<open>JSON.parse\<close> rejects it, or it is the
  serialisation of an archive. \<open>JSON.stringify\<close> followed by \<open>JSON.parse\<close> gives back
  an object with the same own properties in the same order; a form state holds only
  strings, booleans and nested plain objects, which JSON represents exactly. The cast
  \<open>as ArchiveMap\<close> is taken at its word: a text that parses to something else than an
  object of form states is outside the model.
\<close>

datatype payload = EmptyText | Malformed | Json ArchiveMap

datatype error = SecurityError | SyntaxError | QuotaExceededError

text \<open>
  The browser as the archive functions see it: whether \<open>localStorage\<close> can be
  accessed at all, which texts its remaining quota admits, the item under
  \<open>STORAGE_KEY_ARCHIVE\<close> (\<open>None\<close> is \<open>null\<close>), and the messages shown with
  \<open>alert\<close> so far.
\<close>

record browser =
  available :: bool
  admits :: "payload \<Rightarrow> bool"
  archive_item :: "payload option"
  alerts :: "jsstring list"

definition getItem :: "browser \<Rightarrow> error + payload option" where
  "getItem w = (if available w then Inr (archive_item w) else Inl SecurityError)"

definition setItem :: "payload \<Rightarrow> browser \<Rightarrow> error + browser" where
  "setItem v w =
    (if \<not> available w then Inl SecurityError
     else if \<not> admits w v then Inl QuotaExceededError
     else Inr (w\<lparr>archive_item := Some v\<rparr>))"

definition JSON_parse :: "payload \<Rightarrow> error + ArchiveMap" where
  "JSON_parse p = (case p of Json a \<Rightarrow> Inr a | Malformed \<Rightarrow> Inl SyntaxError
                   | EmptyText \<Rightarrow> Inl SyntaxError)"

definition JSON_stringify :: "ArchiveMap \<Rightarrow> payload" where
  "JSON_stringify a = Json a"

definition alert :: "jsstring \<Rightarrow> browser \<Rightarrow> browser" where
  "alert msg w = w\<lparr>alerts := alerts w @ [msg]\<rparr>"

text \<open>\<open>try { body } catch { handler }\<close>.\<close>

definition try_catch :: "error + 'a \<Rightarrow> error + 'a \<Rightarrow> error + 'a" where
  "try_catch body handler = (case body of Inl e \<Rightarrow> handler | Inr v \<Rightarrow> Inr v)"

text \<open>\<open>raw ? JSON.parse(raw) : {}\<close>: \<open>null\<close> and the empty string are falsy.\<close>

definition readArchive :: "browser \<Rightarrow> error + ArchiveMap" where
  "readArchive w =
    try_catch
      (case getItem w of
         Inl e \<Rightarrow> Inl e
       | Inr raw \<Rightarrow>
           (case raw of
              None \<Rightarrow> Inr []
            | Some EmptyText \<Rightarrow> Inr []
            | Some p \<Rightarrow> JSON_parse p))
      (Inr [])"

definition writeArchive :: "ArchiveMap \<Rightarrow> browser \<Rightarrow> error + browser" where
  "writeArchive a w = try_catch (setItem (JSON_stringify a) w) (Inr w)"



text \<open>The message of \<open>onSave\<close>: U+3053 U+306E U+65E5 U+4ED8 U+306E U+70B9 U+691C
  U+7D50 U+679C U+3092 U+4FDD U+5B58 U+3057 U+307E U+3057 U+305F (the inspection
  result of this date has been saved).\<close>

definition L_saved :: jsstring where
  "L_saved =
    [0x3053, 0x306E, 0x65E5, 0x4ED8, 0x306E, 0x70B9, 0x691C, 0x7D50, 0x679C, 0x3092,
     0x4FDD, 0x5B58, 0x3057, 0x307E, 0x3057, 0x305F]"

definition onSave :: "FormState \<Rightarrow> browser \<Rightarrow> error + browser" where
  "onSave form w =
    (case readArchive w of
       Inl e \<Rightarrow> Inl e
     | Inr a \<Rightarrow>
         (let a = js_set a (date (header form)) form
          in case writeArchive a w of
               Inl e \<Rightarrow> Inl e
             | Inr w \<Rightarrow> Inr (alert L_saved w)))"

text \<open>
  \<open>onLoad\<close> calls \<open>setForm(snap)\<close> when \<open>a[d]\<close> is truthy, and does nothing
  otherwise. A snapshot is an object and so truthy; a member of \<open>Object.prototype\<close>
  found under \<open>d\<close> is truthy as well and is passed on though it is no form state
  (\<open>Foreign\<close>). The result is the value handed to \<open>setForm\<close>, \<open>None\<close> when it
  is not called.
\<close>

datatype form_value = Form FormState | Foreign

definition onLoad :: "jsstring \<Rightarrow> browser \<Rightarrow> error + form_value option" where
  "onLoad d w =
    (case readArchive w of
       Inl e \<Rightarrow> Inl e
     | Inr a \<Rightarrow>
         (case js_get a d of
            OwnValue snap \<Rightarrow> Inr (Some (Form snap))
          | Inherited \<Rightarrow> Inr (Some Foreign)
          | Undefined \<Rightarrow> Inr None))"





text \<open>Reading one flag of a visibility map, and the flags that \<open>patchedVisibility\<close>
  overwrites.\<close>

definition visible_in :: "VisibilityMap \<Rightarrow> SectionKey \<Rightarrow> FieldKey \<Rightarrow> bool option" where
  "visible_in m sk k = (case m sk of None \<Rightarrow> None | Some e \<Rightarrow> e k)"

definition forced :: "SectionKey \<Rightarrow> FieldKey \<Rightarrow> bool" where
  "forced sk k \<longleftrightarrow> (sk = aerobic_upper \<or> sk = aerobic_lower) \<and> (k = odor \<or> k = color)"

section \<open>Initial state\<close>

text \<open>\<open>EMPTY_HEADER\<close> takes its date from the clock
  (\<open>new Date().toISOString().slice(0, 10)\<close>); the date is a parameter here.\<close>

definition EMPTY_HEADER :: "jsstring \<Rightarrow> HeaderForm" where
  "EMPTY_HEADER today =
    \<lparr>date = today, weekday = [], weather = [], airTemp = [], primarySettlingNo1 = [],
     primarySettlingNo2 = [], pacRemaining = [], elutionPH = [], elutionTemp = [],
     waterContent = []\<rparr>"

definition EMPTY_SECTION :: SectionForm where
  "EMPTY_SECTION =
    [odor \<mapsto> [], color \<mapsto> [], temp \<mapsto> [], turbidity \<mapsto> [], pH \<mapsto> [], DO \<mapsto> [],
     residualChlorine \<mapsto> [], headLoss \<mapsto> [], aeration \<mapsto> [], comment \<mapsto> []]"

definition DEFAULT_POINTS :: "jsstring list" where
  "DEFAULT_POINTS = [asc ''NO.1-1'', asc ''NO.1-2'', asc ''NO.2-1'', asc ''NO.2-2'']"

definition makeInitialState :: "jsstring \<Rightarrow> FormState" where
  "makeInitialState today =
    \<lparr>header = EMPTY_HEADER today,
     sections = (\<lambda>sk. EMPTY_SECTION),
     points = DEFAULT_POINTS,
     pointData = Some [aerobic_upper \<mapsto> [], aerobic_lower \<mapsto> []],
     visibility = Some (patchedVisibility (Some (\<lambda>sk. Some (DEFAULT_VISIBILITY sk)))),
     extraNote = Some []\<rparr>"

text \<open>Two states of the browser used below: one whose quota admits no further text and
  one that admits every text, each holding a given archive.\<close>

definition quota_exhausted :: "ArchiveMap \<Rightarrow> browser" where
  "quota_exhausted a =
    \<lparr>available = True, admits = (\<lambda>p. False), archive_item = Some (Json a), alerts = []\<rparr>"

definition roomy :: "ArchiveMap \<Rightarrow> browser" where
  "roomy a =
    \<lparr>available = True, admits = (\<lambda>p. True), archive_item = Some (Json a), alerts = []\<rparr>"

definition blocked :: browser where
  "blocked =
    \<lparr>available = False, admits = (\<lambda>p. True), archive_item = Some Malformed, alerts = []\<rparr>"


definition with_note :: "jsstring \<Rightarrow> FormState \<Rightarrow> FormState" where
  "with_note n f = f\<lparr>extraNote := Some n\<rparr>"

text \<open>One stage's block of the sheet: its title row, its rows, the separator row.\<close>

definition stage_block :: "FormState \<Rightarrow> section_def \<Rightarrow> jsstring list list" where
  "stage_block f d = [[bracketed (label d)]] @ stage_rows f (key d) @ [[[]]]"

text \<open>A fresh state whose date has then been set, and a fresh state with an odor
  (U+5FAE, space, U+81ED) entered for one point of the upper aerobic stage, stored
  under a given key.\<close>

definition fresh_form :: FormState where
  "fresh_form = (makeInitialState (asc ''2024-11-03''))
     \<lparr>header := (header (makeInitialState (asc ''2024-11-03'')))\<lparr>date := asc ''2024-05-01''\<rparr>\<rparr>"


section \<open>Properties of the point label\<close>

lemma asc_simps: "asc [] = []" "asc (c # cs) = of_char c # asc cs"
  by (simp_all add: asc_def)

text \<open>
  C9. \<open>displayPointLabel\<close> replaces a leading \<open>NO.\<close> by \<open>No.\<close> and leaves the rest of
  the label as it is, so an \<open>NO.\<close> further to the right stays; a label that does not
  start with \<open>NO.\<close> (in this spelling) is returned unchanged. \<open>NO.1-1\<close> becomes
  \<open>No.1-1\<close>, \<open>XNO.1\<close> and \<open>no.1\<close> stay.
\<close>

theorem displayPointLabel_anchored:
  "displayPointLabel (asc ''NO.'' @ rest) = asc ''No.'' @ rest
   \<and> ((\<nexists>rest'. lab = asc ''NO.'' @ rest') \<longrightarrow> displayPointLabel lab = lab)
   \<and> displayPointLabel (asc ''NO.1-1'') = asc ''No.1-1''
   \<and> displayPointLabel (asc ''XNO.1'') = asc ''XNO.1''
   \<and> displayPointLabel (asc ''NO.NO.2'') = asc ''No.NO.2''
   \<and> displayPointLabel (asc ''no.1'') = asc ''no.1''"
proof -
  have "displayPointLabel (asc ''NO.'' @ rest) = asc ''No.'' @ rest"
    by (simp add: displayPointLabel_def asc_simps)
  moreover have "displayPointLabel lab = lab" if "\<nexists>rest'. lab = asc ''NO.'' @ rest'"
  proof -
    have "take 3 lab \<noteq> asc ''NO.''"
    proof
      assume "take 3 lab = asc ''NO.''"
      then have "lab = asc ''NO.'' @ drop 3 lab"
        by (metis append_take_drop_id)
      with that show False by blast
    qed
    then show ?thesis by (simp add: displayPointLabel_def)
  qed
  moreover have "displayPointLabel (asc ''NO.1-1'') = asc ''No.1-1''"
    "displayPointLabel (asc ''XNO.1'') = asc ''XNO.1''"
    "displayPointLabel (asc ''NO.NO.2'') = asc ''No.NO.2''"
    "displayPointLabel (asc ''no.1'') = asc ''no.1''"
    by (simp_all add: displayPointLabel_def asc_simps)
  ultimately show ?thesis by blast
qed

theorem displayPointLabel_anchored_witness:
  "(\<nexists>rest'. asc ''XNO.1'' = asc ''NO.'' @ rest')
   \<and> displayPointLabel (asc ''XNO.1'') = asc ''XNO.1''
   \<and> displayPointLabel (asc ''NO.'' @ asc ''2-2'') = asc ''No.'' @ asc ''2-2''"
  using displayPointLabel_anchored [of "asc ''2-2''" "asc ''XNO.1''"]
  by (simp add: asc_simps)

section \<open>Properties of the numeric input filter\<close>

























section \<open>Properties of the visibility normalizer\<close>


lemma patchedVisibility_stage:
  "patchedVisibility vis sk =
    Some (if sk = aerobic_upper \<or> sk = aerobic_lower
          then (DEFAULT_VISIBILITY sk ++ stage_entry vis sk)(odor \<mapsto> True, color \<mapsto> True)
          else DEFAULT_VISIBILITY sk ++ stage_entry vis sk)"
  by (cases sk) (simp_all add: patchedVisibility_def force_odor_color_def)

lemma patchedVisibility_entry:
  "visible_in (patchedVisibility vis) sk k =
    (if forced sk k then Some True
     else (case stage_entry vis sk k of
             Some b \<Rightarrow> Some b
           | None \<Rightarrow> DEFAULT_VISIBILITY sk k))"
  by (auto simp: visible_in_def patchedVisibility_stage forced_def map_add_def
      split: option.splits)

lemma stage_entry_patched:
  "stage_entry (Some (patchedVisibility vis)) sk =
     (if sk = aerobic_upper \<or> sk = aerobic_lower
      then (DEFAULT_VISIBILITY sk ++ stage_entry vis sk)(odor \<mapsto> True, color \<mapsto> True)
      else DEFAULT_VISIBILITY sk ++ stage_entry vis sk)"
  by (simp add: stage_entry_def patchedVisibility_stage)

lemma map_add_self: "m ++ m = m"
  by (rule ext) (simp add: map_add_def split: option.splits)

lemma patchedVisibility_idem:
  "patchedVisibility (Some (patchedVisibility vis)) = patchedVisibility vis"
proof (rule ext)
  fix sk
  show "patchedVisibility (Some (patchedVisibility vis)) sk = patchedVisibility vis sk"
  proof (cases "sk = aerobic_upper \<or> sk = aerobic_lower")
    case True
    then show ?thesis
      unfolding patchedVisibility_stage[of "Some (patchedVisibility vis)"] stage_entry_patched
      unfolding patchedVisibility_stage[of vis]
      by (simp add: map_add_self)
  next
    case False
    then show ?thesis
      unfolding patchedVisibility_stage[of "Some (patchedVisibility vis)"] stage_entry_patched
      unfolding patchedVisibility_stage[of vis]
      by (simp add: map_add_self)
  qed
qed




text \<open>
  C4. Normalizing an already normalized map gives the same map, and in the output of
  \<open>patchedVisibility\<close> the odor and color flags of the two point-bearing stages are
  true whatever the input says.
\<close>

theorem patchedVisibility_idempotent_forced:
  "patchedVisibility (Some (patchedVisibility vis)) = patchedVisibility vis
   \<and> visible_in (patchedVisibility vis) aerobic_upper odor = Some True
   \<and> visible_in (patchedVisibility vis) aerobic_upper color = Some True
   \<and> visible_in (patchedVisibility vis) aerobic_lower odor = Some True
   \<and> visible_in (patchedVisibility vis) aerobic_lower color = Some True"
  by (simp add: patchedVisibility_idem patchedVisibility_entry forced_def)

theorem patchedVisibility_idempotent_forced_witness:
  "visible_in (patchedVisibility (Some [aerobic_upper \<mapsto> [odor \<mapsto> False, color \<mapsto> False]]))
     aerobic_upper odor = Some True
   \<and> patchedVisibility
       (Some (patchedVisibility (Some [aerobic_upper \<mapsto> [odor \<mapsto> False, color \<mapsto> False]])))
     = patchedVisibility (Some [aerobic_upper \<mapsto> [odor \<mapsto> False, color \<mapsto> False]])"
  using patchedVisibility_idempotent_forced
    [of "Some [aerobic_upper \<mapsto> [odor \<mapsto> False, color \<mapsto> False]]"]
  by simp

section \<open>Properties of the archive\<close>

lemma readArchive_cases:
  "readArchive w =
    Inr (if available w then (case archive_item w of Some (Json a) \<Rightarrow> a | _ \<Rightarrow> []) else [])"
  by (simp add: readArchive_def try_catch_def getItem_def JSON_parse_def
      split: option.splits payload.splits)

lemma writeArchive_cases:
  "writeArchive a w =
    Inr (if available w \<and> admits w (Json a) then w\<lparr>archive_item := Some (Json a)\<rparr> else w)"
  by (simp add: writeArchive_def try_catch_def setItem_def JSON_stringify_def)

text \<open>
  C7. Neither archive operation lets an exception escape: \<open>readArchive\<close> always
  returns a map and \<open>writeArchive\<close> always completes, showing no message. When the
  store cannot be accessed or the stored text is not valid JSON, \<open>readArchive\<close>
  returns the empty map; when \<open>setItem\<close> throws (the store cannot be accessed, or
  the quota does not admit the text), \<open>writeArchive\<close> leaves the browser as it was.
\<close>

theorem archive_errors_swallowed:
  "(\<exists>a'. readArchive w = Inr a')
   \<and> (\<not> available w \<longrightarrow> readArchive w = Inr [])
   \<and> (archive_item w = Some Malformed \<longrightarrow> readArchive w = Inr [])
   \<and> (\<exists>w'. writeArchive a w = Inr w' \<and> alerts w' = alerts w)
   \<and> ((\<exists>e. setItem (JSON_stringify a) w = Inl e) \<longrightarrow> writeArchive a w = Inr w)
   \<and> (\<not> available w \<longrightarrow> writeArchive a w = Inr w)
   \<and> (\<not> admits w (JSON_stringify a) \<longrightarrow> writeArchive a w = Inr w)"
  by (auto simp: readArchive_cases writeArchive_cases setItem_def JSON_stringify_def
      split: if_splits)

theorem archive_errors_swallowed_witness:
  "\<not> available blocked
   \<and> archive_item blocked = Some Malformed
   \<and> setItem (JSON_stringify [(asc ''2024-05-01'', makeInitialState (asc ''2024-05-01''))])
        blocked = Inl SecurityError
   \<and> readArchive blocked = Inr []
   \<and> writeArchive [(asc ''2024-05-01'', makeInitialState (asc ''2024-05-01''))] blocked
        = Inr blocked
   \<and> \<not> admits (quota_exhausted []) (JSON_stringify [([], makeInitialState [])])
   \<and> setItem (JSON_stringify [([], makeInitialState [])]) (quota_exhausted [])
        = Inl QuotaExceededError
   \<and> writeArchive [([], makeInitialState [])] (quota_exhausted []) = Inr (quota_exhausted [])
   \<and> readArchive ((roomy [])\<lparr>archive_item := Some Malformed\<rparr>) = Inr []"
  using archive_errors_swallowed
      [of blocked "[(asc ''2024-05-01'', makeInitialState (asc ''2024-05-01''))]"]
    archive_errors_swallowed [of "quota_exhausted []" "[([], makeInitialState [])]"]
    archive_errors_swallowed [of "(roomy [])\<lparr>archive_item := Some Malformed\<rparr>" "[]"]
  by (simp add: blocked_def quota_exhausted_def roomy_def setItem_def)

lemma js_get_js_set_same: "k \<noteq> proto_key \<Longrightarrow> js_get (js_set a k v) k = OwnValue v"
  by (simp add: js_get_def js_set_def update_conv')

lemma js_get_js_set_other: "d \<noteq> k \<Longrightarrow> js_get (js_set a k v) d = js_get a d"
  by (simp add: js_get_def js_set_def update_conv')

text \<open>
  C5, as the claim states it, fails: when the quota admits no further text, \<open>onSave\<close>
  leaves the stored archive as it was (and still shows its message), so loading the
  date afterwards returns the snapshot saved before, not the state just saved.
\<close>

theorem save_lost_when_quota_exceeded:
  "onSave (with_note (asc ''x'') (makeInitialState (asc ''2024-05-01'')))
      (quota_exhausted [(asc ''2024-05-01'', makeInitialState (asc ''2024-05-01''))])
    = Inr (alert L_saved
        (quota_exhausted [(asc ''2024-05-01'', makeInitialState (asc ''2024-05-01''))]))
   \<and> onLoad (asc ''2024-05-01'')
       (alert L_saved
         (quota_exhausted [(asc ''2024-05-01'', makeInitialState (asc ''2024-05-01''))]))
    = Inr (Some (Form (makeInitialState (asc ''2024-05-01''))))
   \<and> makeInitialState (asc ''2024-05-01'')
    \<noteq> with_note (asc ''x'') (makeInitialState (asc ''2024-05-01''))
   \<and> date (header (with_note (asc ''x'') (makeInitialState (asc ''2024-05-01''))))
    = asc ''2024-05-01''"
  by (simp add: onSave_def onLoad_def readArchive_cases writeArchive_cases quota_exhausted_def
      alert_def js_get_def js_set_def with_note_def makeInitialState_def EMPTY_HEADER_def
      asc_simps)

text \<open>
  C5, amended. When the store can be accessed and its quota admits the new text, and
  the date of the state is not the key \<open>__proto__\<close>, then \<open>onSave\<close> followed by
  \<open>onLoad\<close> of the state's date returns the state saved, whatever was stored under
  that date before and also for the blank date; the snapshots under all other dates
  are still loaded as before, and the only message shown is the one of \<open>onSave\<close>.
\<close>

theorem save_then_load_roundtrip:
  assumes "available w" and "readArchive w = Inr a"
    and "admits w (JSON_stringify (js_set a (date (header s)) s))"
    and "date (header s) \<noteq> proto_key"
  shows "\<exists>w'. onSave s w = Inr w'
     \<and> onLoad (date (header s)) w' = Inr (Some (Form s))
     \<and> (\<forall>d. d \<noteq> date (header s) \<longrightarrow> onLoad d w' = onLoad d w)
     \<and> alerts w' = alerts w @ [L_saved]"
proof -
  let ?a = "js_set a (date (header s)) s"
  let ?w = "alert L_saved (w\<lparr>archive_item := Some (Json ?a)\<rparr>)"
  have save: "onSave s w = Inr ?w"
    using assms by (simp add: onSave_def writeArchive_cases JSON_stringify_def)
  have rd: "readArchive ?w = Inr ?a"
    using assms(1) by (simp add: readArchive_cases alert_def)
  have "onLoad (date (header s)) ?w = Inr (Some (Form s))"
    using assms(4) by (simp add: onLoad_def rd js_get_js_set_same)
  moreover have "onLoad d ?w = onLoad d w" if "d \<noteq> date (header s)" for d
    using that assms(2) by (simp add: onLoad_def rd js_get_js_set_other)
  moreover have "alerts ?w = alerts w @ [L_saved]"
    by (simp add: alert_def)
  ultimately show ?thesis using save by blast
qed

theorem save_then_load_roundtrip_witness:
  "available (roomy [([], makeInitialState [])])
   \<and> readArchive (roomy [([], makeInitialState [])]) = Inr [([], makeInitialState [])]
   \<and> date (header (with_note (asc ''x'') (makeInitialState []))) \<noteq> proto_key
   \<and> (\<exists>w'. onSave (with_note (asc ''x'') (makeInitialState [])) (roomy [([], makeInitialState [])])
          = Inr w'
        \<and> onLoad [] w' = Inr (Some (Form (with_note (asc ''x'') (makeInitialState [])))))"
proof -
  have a: "available (roomy [([], makeInitialState [])])"
    by (simp add: roomy_def)
  have r: "readArchive (roomy [([], makeInitialState [])]) = Inr [([], makeInitialState [])]"
    by (simp add: readArchive_cases roomy_def)
  have d: "date (header (with_note (asc ''x'') (makeInitialState []))) = []"
    by (simp add: with_note_def makeInitialState_def EMPTY_HEADER_def)
  have q: "admits (roomy [([], makeInitialState [])])
      (JSON_stringify (js_set [([], makeInitialState [])]
        (date (header (with_note (asc ''x'') (makeInitialState []))))
        (with_note (asc ''x'') (makeInitialState []))))"
    by (simp add: roomy_def)
  have p: "date (header (with_note (asc ''x'') (makeInitialState []))) \<noteq> proto_key"
    unfolding d by (simp add: proto_key_def asc_simps)
  from save_then_load_roundtrip [OF a r q p] a r p show ?thesis
    unfolding d by blast
qed

section \<open>Properties of the date list\<close>


















section \<open>Properties of the sheet rows\<close>

lemma isFieldVisible_Some: "isFieldVisible (Some vis) k \<longleftrightarrow> vis k \<noteq> Some False"
  by (simp add: isFieldVisible_def)

lemma isFieldVisible_fun: "isFieldVisible (Some vis) = (\<lambda>k. vis k \<noteq> Some False)"
  by (rule ext) (simp add: isFieldVisible_def)

lemma or_empty_field_value: "or_empty (s k) = field_value s k"
  by (simp add: or_empty_def field_value_def split: option.splits)

lemma foldl_field_step:
  "foldl (field_step s vis) rows ks =
    rows @ map (\<lambda>k. [FIELD_LABEL k, field_value s k]) (filter (\<lambda>k. vis k \<noteq> Some False) ks)"
  by (induction ks arbitrary: rows)
    (simp_all add: field_step_def push_def isFieldVisible_Some or_empty_field_value)

lemma nullish_point_record: "nullish_empty (point_record pd lab k) = point_value pd lab k"
  by (simp add: nullish_empty_def point_record_def point_value_def
      split: property.splits option.splits)

lemma foldl_point_step:
  "foldl (point_step pd cols) rows ps =
    rows @ map (\<lambda>lab. displayPointLabel lab # map (point_value pd lab) cols) ps"
  by (induction ps arbitrary: rows)
    (simp_all add: point_step_def push_def nullish_point_record)

lemma section_step_rows:
  "section_step f rows d =
    rows @ [[bracketed (label d)]] @ stage_rows f (key d) @ [[[]]]"
proof (cases "key d = aerobic_upper \<or> key d = aerobic_lower")
  case True
  then have ps: "key d \<in> set POINT_SECTIONS" by (auto simp: POINT_SECTIONS_def)
  show ?thesis
  proof (cases "visible_columns f (key d) = []")
    case True
    with \<open>key d = aerobic_upper \<or> key d = aerobic_lower\<close> ps show ?thesis
      by (simp add: section_step_def Let_def push_def stage_rows_def point_table_def
          visible_columns_def isFieldVisible_fun)
  next
    case False
    with \<open>key d = aerobic_upper \<or> key d = aerobic_lower\<close> ps show ?thesis
      by (simp add: section_step_def Let_def push_def stage_rows_def point_table_def
          visible_columns_def isFieldVisible_fun foldl_point_step point_row_def)
  qed
next
  case False
  then have "key d \<notin> set POINT_SECTIONS" by (auto simp: POINT_SECTIONS_def)
  with False show ?thesis
    by (simp add: section_step_def Let_def push_def stage_rows_def foldl_field_step
        field_rows_def)
qed

lemma foldl_section_step:
  "foldl (section_step f) rows ds = rows @ concat (map (stage_block f) ds)"
  by (induction ds arbitrary: rows) (simp_all add: section_step_rows stage_block_def)

lemma toSheetRows_structure:
  "toSheetRows f =
    [[L_date, date (header f)],
     [L_weekday, weekday (header f)],
     [L_weather, weather (header f)],
     [L_airTemp, airTemp (header f)],
     [L_primarySettlingNo1, primarySettlingNo1 (header f)],
     [L_primarySettlingNo2, primarySettlingNo2 (header f)],
     [L_pacRemaining, pacRemaining (header f)],
     [L_elutionPH, elutionPH (header f)],
     [L_elutionTemp, elutionTemp (header f)],
     [L_waterContent, waterContent (header f)]]
    @ [[[]]]
    @ concat (map (stage_block f) SECTION_DEFS)
    @ [[bracketed L_freeNote], [L_note, (case extraNote f of None \<Rightarrow> [] | Some n \<Rightarrow> n)], [[]]]"
  by (simp add: toSheetRows_def Let_def push_def foldl_section_step or_empty_def
      split: option.splits)

lemma stage_rows_wide: "r \<in> set (stage_rows f sk) \<Longrightarrow> 2 \<le> length r"
  by (auto simp: stage_rows_def field_rows_def point_table_def point_row_def
      split: if_splits) (cases "visible_columns f sk"; simp)+






lemma header_rows_nth:
  "((r0 # rest) @ others) ! 0 = r0" "((r0 # r1 # rest') @ others) ! 1 = r1"
  by simp_all

lemma fresh_form_header:
  "date (header fresh_form) = asc ''2024-05-01''" "weekday (header fresh_form) = []"
  by (simp_all add: fresh_form_def makeInitialState_def EMPTY_HEADER_def)



lemma point_value_cases:
  "point_value pd lab k =
    (case map_of pd lab of
       None \<Rightarrow> []
     | Some r \<Rightarrow> (case r k of None \<Rightarrow> [] | Some v \<Rightarrow> v))"
  by (simp add: point_value_def js_get_def split: option.splits)




text \<open>
  C1. For every form state the sheet is: the ten label/value rows of the header in
  their fixed order, with the labels of the source written out in code units (the
  first is the date row, the second the weekday row), one separator row holding a
  single empty string; then for each of the four stages, in the order influent, upper
  aerobic, lower aerobic, effluent, a one-cell title row that is the stage label
  between U+3010 and U+3011, the stage's rows, and one separator row; then the title
  row of the free note (U+3010, the seven code units of the free-note label, U+3011),
  the remarks row with the free note or the empty string, and a last separator row.
  No row of a stage has fewer than two cells, so none of them is a separator or a
  title row.
\<close>

theorem toSheetRows_layout:
  "toSheetRows f =
    [[[0x65E5, 0x4ED8], date (header f)],
     [[0x66DC, 0x65E5], weekday (header f)],
     [[0x5929, 0x5019], weather (header f)],
     [[0x5916, 0x6C17, 0x6E29, 0x28, 0x2103, 0x29], airTemp (header f)],
     [[0x521D, 0x6C88, 0x754C, 0x9762, 0x20, 0x4E, 0x4F, 0x2E, 0x31, 0x28, 0x6D, 0x29], primarySettlingNo1 (header f)],
     [[0x521D, 0x6C88, 0x754C, 0x9762, 0x20, 0x4E, 0x4F, 0x2E, 0x32, 0x28, 0x6D, 0x29], primarySettlingNo2 (header f)],
     [[0x50, 0x41, 0x43, 0x6B8B, 0x91CF, 0x28, 0x33A5, 0x29], pacRemaining (header f)],
     [[0x8131, 0x96E2, 0x6DB2, 0x20, 0x70, 0x48], elutionPH (header f)],
     [[0x8131, 0x96E2, 0x6DB2, 0x20, 0x6C34, 0x6E29, 0x28, 0x2103, 0x29], elutionTemp (header f)],
     [[0x542B, 0x6C34, 0x7387, 0x28, 0x25, 0x29], waterContent (header f)]]
    @ [[[]]]
    @ concat (map (\<lambda>d. [[[0x3010] @ label d @ [0x3011]]] @ stage_rows f (key d) @ [[[]]])
        SECTION_DEFS)
    @ [[[0x3010, 0x81EA, 0x7531, 0x8A18, 0x5165, 0x20, 0x5099, 0x8003, 0x3011]],
       [[0x5099, 0x8003], (case extraNote f of None \<Rightarrow> [] | Some n \<Rightarrow> n)],
       [[]]]
   \<and> map key SECTION_DEFS = [influent, aerobic_upper, aerobic_lower, effluent]
   \<and> map label SECTION_DEFS =
       [[0x6D41, 0x5165, 0x6C34],
        [0x597D, 0x6C17, 0x6027, 0x308D, 0x5E8A, 0x20, 0x4E0A, 0x90E8],
        [0x597D, 0x6C17, 0x6027, 0x308D, 0x5E8A, 0x20, 0x4E0B, 0x90E8, 0x30FB, 0x51E6, 0x7406, 0x6C34],
        [0x653E, 0x6D41, 0x6C34]]
   \<and> (\<forall>d \<in> set SECTION_DEFS. \<forall>r \<in> set (stage_rows f (key d)). 2 \<le> length r)
   \<and> toSheetRows f ! 0 = [[0x65E5, 0x4ED8], date (header f)]
   \<and> toSheetRows f ! 1 = [[0x66DC, 0x65E5], weekday (header f)]"
proof -
  have blocks: "stage_block f =
      (\<lambda>d. [[[0x3010] @ label d @ [0x3011]]] @ stage_rows f (key d) @ [[[]]])"
    by (rule ext) (simp add: stage_block_def bracketed_def)
  have layout: "toSheetRows f =
    [[[0x65E5, 0x4ED8], date (header f)],
     [[0x66DC, 0x65E5], weekday (header f)],
     [[0x5929, 0x5019], weather (header f)],
     [[0x5916, 0x6C17, 0x6E29, 0x28, 0x2103, 0x29], airTemp (header f)],
     [[0x521D, 0x6C88, 0x754C, 0x9762, 0x20, 0x4E, 0x4F, 0x2E, 0x31, 0x28, 0x6D, 0x29], primarySettlingNo1 (header f)],
     [[0x521D, 0x6C88, 0x754C, 0x9762, 0x20, 0x4E, 0x4F, 0x2E, 0x32, 0x28, 0x6D, 0x29], primarySettlingNo2 (header f)],
     [[0x50, 0x41, 0x43, 0x6B8B, 0x91CF, 0x28, 0x33A5, 0x29], pacRemaining (header f)],
     [[0x8131, 0x96E2, 0x6DB2, 0x20, 0x70, 0x48], elutionPH (header f)],
     [[0x8131, 0x96E2, 0x6DB2, 0x20, 0x6C34, 0x6E29, 0x28, 0x2103, 0x29], elutionTemp (header f)],
     [[0x542B, 0x6C34, 0x7387, 0x28, 0x25, 0x29], waterContent (header f)]]
    @ [[[]]]
    @ concat (map (\<lambda>d. [[[0x3010] @ label d @ [0x3011]]] @ stage_rows f (key d) @ [[[]]])
        SECTION_DEFS)
    @ [[[0x3010, 0x81EA, 0x7531, 0x8A18, 0x5165, 0x20, 0x5099, 0x8003, 0x3011]],
       [[0x5099, 0x8003], (case extraNote f of None \<Rightarrow> [] | Some n \<Rightarrow> n)],
       [[]]]"
    unfolding toSheetRows_structure blocks
    by (simp add: L_date_def L_weekday_def L_weather_def L_airTemp_def L_primarySettlingNo1_def
        L_primarySettlingNo2_def L_pacRemaining_def L_elutionPH_def L_elutionTemp_def
        L_waterContent_def L_freeNote_def L_note_def bracketed_def asc_def)
  have keys: "map key SECTION_DEFS = [influent, aerobic_upper, aerobic_lower, effluent]"
    by (simp add: SECTION_DEFS_def)
  have labels: "map label SECTION_DEFS =
       [[0x6D41, 0x5165, 0x6C34],
        [0x597D, 0x6C17, 0x6027, 0x308D, 0x5E8A, 0x20, 0x4E0A, 0x90E8],
        [0x597D, 0x6C17, 0x6027, 0x308D, 0x5E8A, 0x20, 0x4E0B, 0x90E8, 0x30FB, 0x51E6, 0x7406, 0x6C34],
        [0x653E, 0x6D41, 0x6C34]]"
    by (simp add: SECTION_DEFS_def)
  have wide: "\<forall>d \<in> set SECTION_DEFS. \<forall>r \<in> set (stage_rows f (key d)). 2 \<le> length r"
    using stage_rows_wide by blast
  have first: "toSheetRows f ! 0 = [[0x65E5, 0x4ED8], date (header f)]"
    "toSheetRows f ! 1 = [[0x66DC, 0x65E5], weekday (header f)]"
    unfolding layout by (rule header_rows_nth)+
  from layout keys labels wide first show ?thesis by (intro conjI)
qed

theorem toSheetRows_layout_witness:
  "toSheetRows fresh_form =
     [[[0x65E5, 0x4ED8], [0x32, 0x30, 0x32, 0x34, 0x2D, 0x30, 0x35, 0x2D, 0x30, 0x31]],
      [[0x66DC, 0x65E5], []],
      [[0x5929, 0x5019], []],
      [[0x5916, 0x6C17, 0x6E29, 0x28, 0x2103, 0x29], []],
      [[0x521D, 0x6C88, 0x754C, 0x9762, 0x20, 0x4E, 0x4F, 0x2E, 0x31, 0x28, 0x6D, 0x29], []],
      [[0x521D, 0x6C88, 0x754C, 0x9762, 0x20, 0x4E, 0x4F, 0x2E, 0x32, 0x28, 0x6D, 0x29], []],
      [[0x50, 0x41, 0x43, 0x6B8B, 0x91CF, 0x28, 0x33A5, 0x29], []],
      [[0x8131, 0x96E2, 0x6DB2, 0x20, 0x70, 0x48], []],
      [[0x8131, 0x96E2, 0x6DB2, 0x20, 0x6C34, 0x6E29, 0x28, 0x2103, 0x29], []],
      [[0x542B, 0x6C34, 0x7387, 0x28, 0x25, 0x29], []],
      [[]],
      [[0x3010, 0x6D41, 0x5165, 0x6C34, 0x3011]],
      [[0x81ED, 0x6C17], []],
      [[0x8272, 0x76F8], []],
      [[0x6C34, 0x6E29, 0x28, 0x2103, 0x29], []],
      [[0x900F, 0x8996, 0x5EA6], []],
      [[0x70, 0x48], []],
      [[0x44, 0x4F, 0x28, 0x6D, 0x67, 0x2F, 0x4C, 0x29], []],
      [[]],
      [[0x3010, 0x597D, 0x6C17, 0x6027, 0x308D, 0x5E8A, 0x20, 0x4E0A, 0x90E8, 0x3011]],
      [[0x30DD, 0x30A4, 0x30F3, 0x30C8], [0x81ED, 0x6C17], [0x8272, 0x76F8], [0x6C34, 0x6E29, 0x28, 0x2103, 0x29], [0x900F, 0x8996, 0x5EA6], [0x70, 0x48], [0x44, 0x4F, 0x28, 0x6D, 0x67, 0x2F, 0x4C, 0x29], [0x308D, 0x6297, 0x9AD8]],
      [[0x4E, 0x6F, 0x2E, 0x31, 0x2D, 0x31], [], [], [], [], [], [], []],
      [[0x4E, 0x6F, 0x2E, 0x31, 0x2D, 0x32], [], [], [], [], [], [], []],
      [[0x4E, 0x6F, 0x2E, 0x32, 0x2D, 0x31], [], [], [], [], [], [], []],
      [[0x4E, 0x6F, 0x2E, 0x32, 0x2D, 0x32], [], [], [], [], [], [], []],
      [[]],
      [[0x3010, 0x597D, 0x6C17, 0x6027, 0x308D, 0x5E8A, 0x20, 0x4E0B, 0x90E8, 0x30FB, 0x51E6, 0x7406, 0x6C34, 0x3011]],
      [[0x30DD, 0x30A4, 0x30F3, 0x30C8], [0x81ED, 0x6C17], [0x8272, 0x76F8], [0x6C34, 0x6E29, 0x28, 0x2103, 0x29], [0x900F, 0x8996, 0x5EA6], [0x70, 0x48], [0x44, 0x4F, 0x28, 0x6D, 0x67, 0x2F, 0x4C, 0x29], [0x9001, 0x6C17, 0x91CF]],
      [[0x4E, 0x6F, 0x2E, 0x31, 0x2D, 0x31], [], [], [], [], [], [], []],
      [[0x4E, 0x6F, 0x2E, 0x31, 0x2D, 0x32], [], [], [], [], [], [], []],
      [[0x4E, 0x6F, 0x2E, 0x32, 0x2D, 0x31], [], [], [], [], [], [], []],
      [[0x4E, 0x6F, 0x2E, 0x32, 0x2D, 0x32], [], [], [], [], [], [], []],
      [[]],
      [[0x3010, 0x653E, 0x6D41, 0x6C34, 0x3011]],
      [[0x81ED, 0x6C17], []],
      [[0x8272, 0x76F8], []],
      [[0x6C34, 0x6E29, 0x28, 0x2103, 0x29], []],
      [[0x900F, 0x8996, 0x5EA6], []],
      [[0x70, 0x48], []],
      [[0x44, 0x4F, 0x28, 0x6D, 0x67, 0x2F, 0x4C, 0x29], []],
      [[0x6B8B, 0x5869, 0x28, 0x6D, 0x67, 0x2F, 0x4C, 0x29], []],
      [[]],
      [[0x3010, 0x81EA, 0x7531, 0x8A18, 0x5165, 0x20, 0x5099, 0x8003, 0x3011]],
      [[0x5099, 0x8003], []],
      [[]]]
   \<and> SECTION_DEFS ! 0 \<in> set SECTION_DEFS
   \<and> [FIELD_LABEL odor, []] \<in> set (stage_rows fresh_form (key (SECTION_DEFS ! 0)))
   \<and> 2 \<le> length [FIELD_LABEL odor, ([] :: jsstring)]"
proof -
  have d: "SECTION_DEFS ! 0 \<in> set SECTION_DEFS"
    by (simp add: SECTION_DEFS_def)
  have r: "[FIELD_LABEL odor, []] \<in> set (stage_rows fresh_form (key (SECTION_DEFS ! 0)))"
    by (simp add: SECTION_DEFS_def stage_rows_def field_rows_def FIELD_ORDER_def fresh_form_def
        makeInitialState_def stage_entry_def patchedVisibility_stage DEFAULT_VISIBILITY_def
        field_value_def EMPTY_SECTION_def)
  have v: "visible_columns fresh_form aerobic_upper =
      [odor, color, temp, turbidity, pH, DO, headLoss]"
    "visible_columns fresh_form aerobic_lower =
      [odor, color, temp, turbidity, pH, DO, aeration]"
    by (simp_all add: visible_columns_def fresh_form_def makeInitialState_def stage_entry_def
        patchedVisibility_stage DEFAULT_VISIBILITY_def POINT_FIELD_ORDER_def)
  have p: "points fresh_form = DEFAULT_POINTS"
    "stage_pointData fresh_form aerobic_upper = []"
    "stage_pointData fresh_form aerobic_lower = []"
    by (simp_all add: stage_pointData_def fresh_form_def makeInitialState_def)
  have s: "stage_rows fresh_form influent =
      map (\<lambda>k. [FIELD_LABEL k, []]) [odor, color, temp, turbidity, pH, DO]"
    "stage_rows fresh_form effluent =
      map (\<lambda>k. [FIELD_LABEL k, []]) [odor, color, temp, turbidity, pH, DO, residualChlorine]"
    by (simp_all add: stage_rows_def field_rows_def FIELD_ORDER_def fresh_form_def
        makeInitialState_def stage_entry_def patchedVisibility_stage DEFAULT_VISIBILITY_def
        field_value_def EMPTY_SECTION_def)
  have t: "stage_rows fresh_form aerobic_upper =
      (L_point # map FIELD_LABEL [odor, color, temp, turbidity, pH, DO, headLoss]) #
      map (\<lambda>lab. [displayPointLabel lab, [], [], [], [], [], [], []]) DEFAULT_POINTS"
    "stage_rows fresh_form aerobic_lower =
      (L_point # map FIELD_LABEL [odor, color, temp, turbidity, pH, DO, aeration]) #
      map (\<lambda>lab. [displayPointLabel lab, [], [], [], [], [], [], []]) DEFAULT_POINTS"
    by (simp_all add: stage_rows_def point_table_def point_row_def v p point_value_cases)
  have h: "weather (header fresh_form) = []" "airTemp (header fresh_form) = []"
    "primarySettlingNo1 (header fresh_form) = []" "primarySettlingNo2 (header fresh_form) = []"
    "pacRemaining (header fresh_form) = []" "elutionPH (header fresh_form) = []"
    "elutionTemp (header fresh_form) = []" "waterContent (header fresh_form) = []"
    "extraNote fresh_form = Some []"
    by (simp_all add: fresh_form_def makeInitialState_def EMPTY_HEADER_def)
  from toSheetRows_layout [of fresh_form, THEN conjunct1]
  have "toSheetRows fresh_form =
     [[[0x65E5, 0x4ED8], [0x32, 0x30, 0x32, 0x34, 0x2D, 0x30, 0x35, 0x2D, 0x30, 0x31]],
      [[0x66DC, 0x65E5], []],
      [[0x5929, 0x5019], []],
      [[0x5916, 0x6C17, 0x6E29, 0x28, 0x2103, 0x29], []],
      [[0x521D, 0x6C88, 0x754C, 0x9762, 0x20, 0x4E, 0x4F, 0x2E, 0x31, 0x28, 0x6D, 0x29], []],
      [[0x521D, 0x6C88, 0x754C, 0x9762, 0x20, 0x4E, 0x4F, 0x2E, 0x32, 0x28, 0x6D, 0x29], []],
      [[0x50, 0x41, 0x43, 0x6B8B, 0x91CF, 0x28, 0x33A5, 0x29], []],
      [[0x8131, 0x96E2, 0x6DB2, 0x20, 0x70, 0x48], []],
      [[0x8131, 0x96E2, 0x6DB2, 0x20, 0x6C34, 0x6E29, 0x28, 0x2103, 0x29], []],
      [[0x542B, 0x6C34, 0x7387, 0x28, 0x25, 0x29], []],
      [[]],
      [[0x3010, 0x6D41, 0x5165, 0x6C34, 0x3011]],
      [[0x81ED, 0x6C17], []],
      [[0x8272, 0x76F8], []],
      [[0x6C34, 0x6E29, 0x28, 0x2103, 0x29], []],
      [[0x900F, 0x8996, 0x5EA6], []],
      [[0x70, 0x48], []],
      [[0x44, 0x4F, 0x28, 0x6D, 0x67, 0x2F, 0x4C, 0x29], []],
      [[]],
      [[0x3010, 0x597D, 0x6C17, 0x6027, 0x308D, 0x5E8A, 0x20, 0x4E0A, 0x90E8, 0x3011]],
      [[0x30DD, 0x30A4, 0x30F3, 0x30C8], [0x81ED, 0x6C17], [0x8272, 0x76F8], [0x6C34, 0x6E29, 0x28, 0x2103, 0x29], [0x900F, 0x8996, 0x5EA6], [0x70, 0x48], [0x44, 0x4F, 0x28, 0x6D, 0x67, 0x2F, 0x4C, 0x29], [0x308D, 0x6297, 0x9AD8]],
      [[0x4E, 0x6F, 0x2E, 0x31, 0x2D, 0x31], [], [], [], [], [], [], []],
      [[0x4E, 0x6F, 0x2E, 0x31, 0x2D, 0x32], [], [], [], [], [], [], []],
      [[0x4E, 0x6F, 0x2E, 0x32, 0x2D, 0x31], [], [], [], [], [], [], []],
      [[0x4E, 0x6F, 0x2E, 0x32, 0x2D, 0x32], [], [], [], [], [], [], []],
      [[]],
      [[0x3010, 0x597D, 0x6C17, 0x6027, 0x308D, 0x5E8A, 0x20, 0x4E0B, 0x90E8, 0x30FB, 0x51E6, 0x7406, 0x6C34, 0x3011]],
      [[0x30DD, 0x30A4, 0x30F3, 0x30C8], [0x81ED, 0x6C17], [0x8272, 0x76F8], [0x6C34, 0x6E29, 0x28, 0x2103, 0x29], [0x900F, 0x8996, 0x5EA6], [0x70, 0x48], [0x44, 0x4F, 0x28, 0x6D, 0x67, 0x2F, 0x4C, 0x29], [0x9001, 0x6C17, 0x91CF]],
      [[0x4E, 0x6F, 0x2E, 0x31, 0x2D, 0x31], [], [], [], [], [], [], []],
      [[0x4E, 0x6F, 0x2E, 0x31, 0x2D, 0x32], [], [], [], [], [], [], []],
      [[0x4E, 0x6F, 0x2E, 0x32, 0x2D, 0x31], [], [], [], [], [], [], []],
      [[0x4E, 0x6F, 0x2E, 0x32, 0x2D, 0x32], [], [], [], [], [], [], []],
      [[]],
      [[0x3010, 0x653E, 0x6D41, 0x6C34, 0x3011]],
      [[0x81ED, 0x6C17], []],
      [[0x8272, 0x76F8], []],
      [[0x6C34, 0x6E29, 0x28, 0x2103, 0x29], []],
      [[0x900F, 0x8996, 0x5EA6], []],
      [[0x70, 0x48], []],
      [[0x44, 0x4F, 0x28, 0x6D, 0x67, 0x2F, 0x4C, 0x29], []],
      [[0x6B8B, 0x5869, 0x28, 0x6D, 0x67, 0x2F, 0x4C, 0x29], []],
      [[]],
      [[0x3010, 0x81EA, 0x7531, 0x8A18, 0x5165, 0x20, 0x5099, 0x8003, 0x3011]],
      [[0x5099, 0x8003], []],
      [[]]]"
    unfolding fresh_form_header
    by (simp add: SECTION_DEFS_def s t h DEFAULT_POINTS_def displayPointLabel_def L_point_def
        asc_def)
  with d r show ?thesis by simp
qed





end
